theory Spec2Isabelle
  imports Complex_Main "HOL-Library.Multiset"
begin

section \<open>Monte Carlo simulation and scoring (statsbox.simulation.montecarlo)\<close>

text \<open>
  The module holds one class, \<open>MonteCarlo\<close>, with a constructor, the generator
  \<open>gen_dists\<close> and the scoring method \<open>apply_criteria\<close>.

  Conventions of the embedding:
  \<^item> a sample is a \<open>real\<close>: the float64 values of numpy are idealised as real numbers,
    so rounding and the values inf, nan and -0.0 of a \<^emph>\<open>sample\<close> are not modelled;
  \<^item> a statistic is an \<open>npfloat\<close>: a real number or the sentinel \<open>NaN\<close> (\<open>np.nan\<close>);
  \<^item> a raised exception is \<open>Inl\<close> of an \<open>error\<close>, a normal return is \<open>Inr\<close>;
  \<^item> the random generator \<open>self._rng\<close> is a state of an arbitrary type \<open>'g\<close>, threaded
    explicitly. One draw from it is a parameter \<open>draw\<close> of the model: given the state,
    a mean and a standard deviation it returns a sample and the next state;
  \<^item> the lazy generator \<open>gen_dists\<close> is the list of the walks it yields, together with
    the generator state after the last draw.
\<close>

subsection \<open>Data model\<close>

datatype error = ValueError

datatype npfloat = Num real | NaN

record 'g MonteCarlo =
  means :: "real list"
  std_devs :: "real list"
  samples :: "int list"
  walks :: int
  categories :: nat
  rng :: 'g

text \<open>The tuple \<open>(values, min, mean, median, max, std)\<close> returned for each pool.\<close>

type_synonym pool_stats = "real list \<times> npfloat \<times> npfloat \<times> npfloat \<times> npfloat \<times> npfloat"

subsection \<open>Construction (\<open>__init__\<close>, lines 30-65)\<close>

text \<open>
  The constructor compares the three lengths and raises \<open>ValueError\<close> when they differ;
  otherwise it stores its arguments and the number of categories. The generator seeded
  from the clock is the argument \<open>seed\<close>.
\<close>

definition init :: "real list \<Rightarrow> real list \<Rightarrow> int list \<Rightarrow> int \<Rightarrow> 'g \<Rightarrow> error + 'g MonteCarlo" where
  "init ms sds ns w seed =
     (if length ms \<noteq> length sds \<or> length ms \<noteq> length ns then Inl ValueError
      else Inr \<lparr>means = ms, std_devs = sds, samples = ns, walks = w,
                categories = length ms, rng = seed\<rparr>)"

subsection \<open>Sample generation (\<open>gen_dists\<close>, lines 67-78)\<close>

text \<open>
  \<open>RandomState.normal(loc, scale, size)\<close> of numpy, for a scalar \<open>size\<close>: it raises
  \<open>ValueError\<close> for a negative scale or a negative size, and otherwise returns \<open>size\<close>
  samples, each one draw from the generator.
\<close>

fun draws :: "('g \<Rightarrow> real \<Rightarrow> real \<Rightarrow> real \<times> 'g) \<Rightarrow> real \<Rightarrow> real \<Rightarrow> nat \<Rightarrow> 'g \<Rightarrow> real list \<times> 'g" where
  "draws draw loc scale 0 g = ([], g)"
| "draws draw loc scale (Suc n) g =
     (case draw g loc scale of (x, g') \<Rightarrow>
        (case draws draw loc scale n g' of (xs, g'') \<Rightarrow> (x # xs, g'')))"

definition normal ::
  "('g \<Rightarrow> real \<Rightarrow> real \<Rightarrow> real \<times> 'g) \<Rightarrow> 'g \<Rightarrow> real \<Rightarrow> real \<Rightarrow> int \<Rightarrow> error + (real list \<times> 'g)" where
  "normal draw g loc scale n =
     (if scale < 0 \<or> n < 0 then Inl ValueError
      else Inr (draws draw loc scale (nat n) g))"

text \<open>
  One walk: the inner loop over \<open>zip(self.means, self.std_devs, self.samples)\<close>, which
  appends one array per category to \<open>dists\<close>.
\<close>

fun gen_walk ::
  "('g \<Rightarrow> real \<Rightarrow> real \<Rightarrow> real \<times> 'g) \<Rightarrow> (real \<times> real \<times> int) list \<Rightarrow> 'g \<Rightarrow> error + (real list list \<times> 'g)" where
  "gen_walk draw [] g = Inr ([], g)"
| "gen_walk draw ((mean, std_dev, n) # ps) g =
     (case normal draw g mean std_dev n of
        Inl e \<Rightarrow> Inl e
      | Inr (arr, g') \<Rightarrow>
          (case gen_walk draw ps g' of
             Inl e \<Rightarrow> Inl e
           | Inr (dists, g'') \<Rightarrow> Inr (arr # dists, g'')))"

text \<open>The outer loop \<open>for _ in range(self.walks)\<close>: one walk per iteration.\<close>

fun gen_walks ::
  "('g \<Rightarrow> real \<Rightarrow> real \<Rightarrow> real \<times> 'g) \<Rightarrow> nat \<Rightarrow> (real \<times> real \<times> int) list \<Rightarrow> 'g \<Rightarrow> error + (real list list list \<times> 'g)" where
  "gen_walks draw 0 ps g = Inr ([], g)"
| "gen_walks draw (Suc k) ps g =
     (case gen_walk draw ps g of
        Inl e \<Rightarrow> Inl e
      | Inr (dists, g') \<Rightarrow>
          (case gen_walks draw k ps g' of
             Inl e \<Rightarrow> Inl e
           | Inr (ws, g'') \<Rightarrow> Inr (dists # ws, g'')))"

text \<open>
  \<open>range(self.walks)\<close> is empty for a walk count below one, hence \<open>nat (walks mc)\<close>
  iterations. The result is the list of yielded walks and the object with its generator
  advanced.
\<close>

definition gen_dists ::
  "('g \<Rightarrow> real \<Rightarrow> real \<Rightarrow> real \<times> 'g) \<Rightarrow> 'g MonteCarlo \<Rightarrow> error + (real list list list \<times> 'g MonteCarlo)" where
  "gen_dists draw mc =
     (case gen_walks draw (nat (walks mc))
             (zip (means mc) (zip (std_devs mc) (samples mc))) (rng mc) of
        Inl e \<Rightarrow> Inl e
      | Inr (ws, g) \<Rightarrow> Inr (ws, mc\<lparr>rng := g\<rparr>))"

subsection \<open>Scoring (\<open>apply_criteria\<close>, lines 80-199)\<close>

definition FAIL :: nat where
  "FAIL = 0"

definition PASS :: nat where
  "PASS = 1"

text \<open>
  Lines 145-147: the array \<open>arr\<close> (\<open>dist\<close> in the source) of category \<open>idx\<close> is
  appended to the pool at position \<open>(idx == control_idx) + FAIL\<close>, the comparison
  counting as 1 when it holds and as 0 otherwise. The enumeration index \<open>idx\<close> is
  never negative; \<open>control_idx\<close> is any integer.
\<close>

definition concat_into :: "int \<Rightarrow> nat \<times> real list \<Rightarrow> real list list \<Rightarrow> real list list" where
  "concat_into control_idx p all_dists =
     (case p of (idx, arr) \<Rightarrow>
        (let k = (if int idx = control_idx then 1 else 0) + FAIL
         in all_dists[k := all_dists ! k @ arr]))"

text \<open>Lines 140-147: \<open>all_dists\<close> starts as two empty arrays and collects every walk.\<close>

definition pool_dists :: "real list list list \<Rightarrow> int \<Rightarrow> real list list" where
  "pool_dists ws control_idx =
     fold (\<lambda>dists all_dists. fold (concat_into control_idx) (enumerate 0 dists) all_dists)
       ws [[], []]"

text \<open>\<open>np.where(xs < c)[0]\<close> and \<open>np.where(xs > c)[0]\<close>: the positions that satisfy the test.\<close>

definition where_lt :: "real list \<Rightarrow> real \<Rightarrow> nat list" where
  "where_lt xs c = filter (\<lambda>i. xs ! i < c) [0..<length xs]"

definition where_gt :: "real list \<Rightarrow> real \<Rightarrow> nat list" where
  "where_gt xs c = filter (\<lambda>i. xs ! i > c) [0..<length xs]"

text \<open>\<open>xs[idxs]\<close>: selection by an index array (the indices come from \<open>np.where\<close>).\<close>

definition take_idx :: "real list \<Rightarrow> nat list \<Rightarrow> real list" where
  "take_idx xs idxs = map (\<lambda>i. xs ! i) idxs"

text \<open>
  The numpy reductions. \<open>np.min\<close> and \<open>np.max\<close> raise \<open>ValueError\<close> on an empty array;
  \<open>np.mean\<close>, \<open>np.median\<close> and \<open>np.std\<close> return nan there. \<open>np.std\<close> is the population
  standard deviation (\<open>ddof = 0\<close>).
\<close>

definition np_min :: "real list \<Rightarrow> error + npfloat" where
  "np_min xs = (if xs = [] then Inl ValueError else Inr (Num (fold min (tl xs) (hd xs))))"

definition np_max :: "real list \<Rightarrow> error + npfloat" where
  "np_max xs = (if xs = [] then Inl ValueError else Inr (Num (fold max (tl xs) (hd xs))))"

definition np_mean :: "real list \<Rightarrow> npfloat" where
  "np_mean xs = (if xs = [] then NaN else Num (sum_list xs / real (length xs)))"

definition np_median :: "real list \<Rightarrow> npfloat" where
  "np_median xs =
     (if xs = [] then NaN
      else (let s = sort xs; n = length s
            in if even n then Num ((s ! (n div 2 - 1) + s ! (n div 2)) / 2)
               else Num (s ! (n div 2))))"

definition np_std :: "real list \<Rightarrow> npfloat" where
  "np_std xs =
     (if xs = [] then NaN
      else (let m = sum_list xs / real (length xs)
            in Num (sqrt (sum_list (map (\<lambda>x. (x - m)\<^sup>2) xs) / real (length xs)))))"

text \<open>
  Lines 154-175 and 178-198, the same block for each pool: with at least one selected
  index the selected values are sorted and summarised, otherwise the result is the empty
  array with five nan.
\<close>

definition summarise :: "real list \<Rightarrow> nat list \<Rightarrow> error + pool_stats" where
  "summarise pool idxs =
     (if length idxs \<noteq> 0 then
        (let vals = sort (take_idx pool idxs) in
           (case np_min vals of
              Inl e \<Rightarrow> Inl e
            | Inr mn \<Rightarrow>
                (case np_max vals of
                   Inl e \<Rightarrow> Inl e
                 | Inr mx \<Rightarrow> Inr (vals, mn, np_mean vals, np_median vals, mx, np_std vals))))
      else Inr ([], NaN, NaN, NaN, NaN, NaN))"

text \<open>
  Lines 137-199 for a given sequence of walks (what the loop at line 143 receives from
  \<open>self.gen_dists()\<close>). The argument \<open>test_cri\<close> is not read anywhere in the body.
\<close>

definition apply_criteria_dists ::
  "real list list list \<Rightarrow> int \<Rightarrow> real \<Rightarrow> string \<Rightarrow> error + (pool_stats \<times> pool_stats)" where
  "apply_criteria_dists ws control_idx criteria test_cri =
     (let all_dists = pool_dists ws control_idx;
          false_neg_idx = where_lt (all_dists ! FAIL) criteria;
          false_pos_idx = where_gt (all_dists ! PASS) criteria
      in (case summarise (all_dists ! FAIL) false_neg_idx of
            Inl e \<Rightarrow> Inl e
          | Inr false_neg \<Rightarrow>
              (case summarise (all_dists ! PASS) false_pos_idx of
                 Inl e \<Rightarrow> Inl e
               | Inr false_pos \<Rightarrow> Inr (false_neg, false_pos))))"

text \<open>
  The method itself: it draws the walks from its own generator and scores them. The
  defaults of the source are \<open>control_idx = -1\<close>, \<open>criteria = 0\<close> and
  \<open>test_cri = '__lt__'\<close>.
\<close>

definition apply_criteria ::
  "('g \<Rightarrow> real \<Rightarrow> real \<Rightarrow> real \<times> 'g) \<Rightarrow> 'g MonteCarlo \<Rightarrow> int \<Rightarrow> real \<Rightarrow> string
     \<Rightarrow> error + ((pool_stats \<times> pool_stats) \<times> 'g MonteCarlo)" where
  "apply_criteria draw mc control_idx criteria test_cri =
     (case gen_dists draw mc of
        Inl e \<Rightarrow> Inl e
      | Inr (ws, mc') \<Rightarrow>
          (case apply_criteria_dists ws control_idx criteria test_cri of
             Inl e \<Rightarrow> Inl e
           | Inr res \<Rightarrow> Inr (res, mc')))"

definition default_control_idx :: int where
  "default_control_idx = - 1"

definition default_criteria :: real where
  "default_criteria = 0"

definition default_test_cri :: string where
  "default_test_cri = ''__lt__''"

subsection \<open>Notions used in the statements\<close>

text \<open>
  The contribution of one walk to the two pools: the arrays of the walk whose position
  differs from \<open>control_idx\<close>, respectively equals it, joined in order.
\<close>

definition non_control :: "int \<Rightarrow> real list list \<Rightarrow> real list" where
  "non_control c w = concat (map snd (filter (\<lambda>p. int (fst p) \<noteq> c) (enumerate 0 w)))"

definition control :: "int \<Rightarrow> real list list \<Rightarrow> real list" where
  "control c w = concat (map snd (filter (\<lambda>p. int (fst p) = c) (enumerate 0 w)))"

text \<open>All samples of category \<open>i\<close>, over all walks.\<close>

definition cat_samples :: "real list list list \<Rightarrow> nat \<Rightarrow> real list" where
  "cat_samples ws i = concat (map (\<lambda>w. if i < length w then w ! i else []) ws)"

text \<open>The summary of a list of selected values, as \<open>summarise\<close> computes it.\<close>

definition stats_of :: "real list \<Rightarrow> pool_stats" where
  "stats_of vals =
     (if vals = [] then ([], NaN, NaN, NaN, NaN, NaN)
      else (sort vals, Num (fold min (tl (sort vals)) (hd (sort vals))), np_mean (sort vals),
            np_median (sort vals), Num (fold max (tl (sort vals)) (hd (sort vals))),
            np_std (sort vals)))"


text \<open>
  A deterministic generator for concrete runs: the state is a counter, and the sample
  drawn at state \<open>g\<close> is \<open>loc + scale * g\<close>.
\<close>

definition demo_draw :: "nat \<Rightarrow> real \<Rightarrow> real \<Rightarrow> real \<times> nat" where
  "demo_draw g loc scale = (loc + scale * real g, Suc g)"

section \<open>Properties of the pooling, the selection and the generation\<close>

text \<open>The two loops of lines 143-147 split every walk by the test \<open>idx == control_idx\<close>.\<close>

lemma fold_concat_into:
  "fold (concat_into c) ps [a, b] =
     [a @ concat (map snd (filter (\<lambda>p. int (fst p) \<noteq> c) ps)),
      b @ concat (map snd (filter (\<lambda>p. int (fst p) = c) ps))]"
  by (induction ps arbitrary: a b) (auto simp: concat_into_def FAIL_def)

lemma fold_walks:
  "fold (\<lambda>dists all_dists. fold (concat_into c) (enumerate 0 dists) all_dists) ws [a, b] =
     [a @ concat (map (non_control c) ws), b @ concat (map (control c) ws)]"
  by (induction ws arbitrary: a b) (simp_all add: fold_concat_into non_control_def control_def)

lemma pool_dists_eq:
  "pool_dists ws c = [concat (map (non_control c) ws), concat (map (control c) ws)]"
  by (simp add: pool_dists_def fold_walks)

text \<open>Selecting by the indices of \<open>np.where\<close> is filtering by the test.\<close>

lemma take_idx_where_lt: "take_idx xs (where_lt xs c) = filter (\<lambda>x. x < c) xs"
proof -
  have "map ((!) xs) (filter (\<lambda>i. xs ! i < c) [0..<length xs])
        = filter (\<lambda>x. x < c) (map ((!) xs) [0..<length xs])"
    by (simp add: filter_map comp_def)
  then show ?thesis by (simp add: take_idx_def where_lt_def map_nth)
qed

lemma take_idx_where_gt: "take_idx xs (where_gt xs c) = filter (\<lambda>x. x > c) xs"
proof -
  have "map ((!) xs) (filter (\<lambda>i. xs ! i > c) [0..<length xs])
        = filter (\<lambda>x. x > c) (map ((!) xs) [0..<length xs])"
    by (simp add: filter_map comp_def)
  then show ?thesis by (simp add: take_idx_def where_gt_def map_nth)
qed

lemma where_lt_Nil_iff: "(where_lt xs c = []) = (filter (\<lambda>x. x < c) xs = [])"
  by (metis take_idx_where_lt take_idx_def map_is_Nil_conv)

lemma where_gt_Nil_iff: "(where_gt xs c = []) = (filter (\<lambda>x. x > c) xs = [])"
  by (metis take_idx_where_gt take_idx_def map_is_Nil_conv)

lemma sort_Nil_iff: "(sort xs = []) = (xs = [])"
  by (metis length_sort length_0_conv)

text \<open>\<open>np.min\<close> and \<open>np.max\<close> are only reached on a non-empty selection, so nothing raises.\<close>

lemma summarise_where_lt:
  "summarise pool (where_lt pool c) = Inr (stats_of (filter (\<lambda>x. x < c) pool))"
  by (simp add: summarise_def stats_of_def where_lt_Nil_iff take_idx_where_lt sort_Nil_iff np_min_def np_max_def Let_def)

lemma summarise_where_gt:
  "summarise pool (where_gt pool c) = Inr (stats_of (filter (\<lambda>x. x > c) pool))"
  by (simp add: summarise_def stats_of_def where_gt_Nil_iff take_idx_where_gt sort_Nil_iff np_min_def np_max_def Let_def)

lemma apply_criteria_dists_eq:
  "apply_criteria_dists ws c t tc =
     Inr (stats_of (filter (\<lambda>x. x < t) (concat (map (non_control c) ws))),
          stats_of (filter (\<lambda>x. x > t) (concat (map (control c) ws))))"
  by (simp add: apply_criteria_dists_def pool_dists_eq FAIL_def PASS_def summarise_where_lt summarise_where_gt)

text \<open>The pools as multisets, in terms of the samples of each category.\<close>

lemma enumerate_as_map: "enumerate 0 w = map (\<lambda>i. (i, w ! i)) [0..<length w]"
  by (auto intro!: nth_equalityI simp: nth_enumerate_eq)

lemma non_control_nth:
  "non_control c w = concat (map ((!) w) (filter (\<lambda>i. int i \<noteq> c) [0..<length w]))"
  by (simp add: non_control_def enumerate_as_map filter_map comp_def)

lemma control_nth:
  "control c w = concat (map ((!) w) (filter (\<lambda>i. int i = c) [0..<length w]))"
  by (simp add: control_def enumerate_as_map filter_map comp_def)

lemma mset_non_control:
  "mset (non_control c w) = (\<Sum>i \<in> {i. i < length w \<and> int i \<noteq> c}. mset (w ! i))"
proof -
  have d: "distinct (filter (\<lambda>i. int i \<noteq> c) [0..<length w])" by simp
  have s: "set (filter (\<lambda>i. int i \<noteq> c) [0..<length w]) = {i. i < length w \<and> int i \<noteq> c}"
    by auto
  have "mset (non_control c w) =
        (\<Sum>i\<leftarrow>filter (\<lambda>i. int i \<noteq> c) [0..<length w]. mset (w ! i))"
    by (simp add: non_control_nth mset_concat comp_def)
  also have "\<dots> = (\<Sum>i \<in> set (filter (\<lambda>i. int i \<noteq> c) [0..<length w]). mset (w ! i))"
    using d by (rule sum_list_distinct_conv_sum_set)
  finally show ?thesis by (simp only: s)
qed

lemma mset_control:
  "mset (control c w) = (\<Sum>i \<in> {i. i < length w \<and> int i = c}. mset (w ! i))"
proof -
  have d: "distinct (filter (\<lambda>i. int i = c) [0..<length w])" by simp
  have s: "set (filter (\<lambda>i. int i = c) [0..<length w]) = {i. i < length w \<and> int i = c}"
    by auto
  have "mset (control c w) =
        (\<Sum>i\<leftarrow>filter (\<lambda>i. int i = c) [0..<length w]. mset (w ! i))"
    by (simp add: control_nth mset_concat comp_def)
  also have "\<dots> = (\<Sum>i \<in> set (filter (\<lambda>i. int i = c) [0..<length w]). mset (w ! i))"
    using d by (rule sum_list_distinct_conv_sum_set)
  finally show ?thesis by (simp only: s)
qed

lemma mset_pool_by_category:
  assumes "\<forall>w \<in> set ws. length w \<le> N"
  shows "(\<Sum>w\<leftarrow>ws. \<Sum>i \<in> {i. i < length w \<and> P i}. mset (w ! i)) =
         (\<Sum>i \<in> {i. i < N \<and> P i}. mset (cat_samples ws i))"
  using assms
proof (induction ws)
  case Nil
  then show ?case by (simp add: cat_samples_def)
next
  case (Cons w ws)
  have le: "length w \<le> N" using Cons.prems by simp
  have "(\<Sum>i \<in> {i. i < length w \<and> P i}. mset (w ! i)) =
        (\<Sum>i \<in> {i. i < N \<and> P i}. if i < length w then mset (w ! i) else {#})"
    using le by (intro sum.mono_neutral_cong_left) auto
  moreover have "(\<Sum>w\<leftarrow>ws. \<Sum>i \<in> {i. i < length w \<and> P i}. mset (w ! i)) =
        (\<Sum>i \<in> {i. i < N \<and> P i}. mset (cat_samples ws i))"
    using Cons by simp
  moreover have "\<And>i. mset (cat_samples (w # ws) i) =
        (if i < length w then mset (w ! i) else {#}) + mset (cat_samples ws i)"
    by (simp add: cat_samples_def)
  ultimately show ?case by (simp add: sum.distrib)
qed

lemma mset_non_control_pool:
  assumes "\<forall>w \<in> set ws. length w \<le> N"
  shows "mset (concat (map (non_control c) ws)) =
         (\<Sum>i \<in> {i. i < N \<and> int i \<noteq> c}. mset (cat_samples ws i))"
  using mset_pool_by_category [OF assms, of "\<lambda>i. int i \<noteq> c"]
  by (simp add: mset_concat comp_def mset_non_control)

lemma mset_control_pool:
  assumes "\<forall>w \<in> set ws. length w \<le> N"
  shows "mset (concat (map (control c) ws)) =
         (\<Sum>i \<in> {i. i < N \<and> int i = c}. mset (cat_samples ws i))"
  using mset_pool_by_category [OF assms, of "\<lambda>i. int i = c"]
  by (simp add: mset_concat comp_def mset_control)

lemma stats_of_mset: "mset xs = mset ys \<Longrightarrow> stats_of xs = stats_of ys"
proof -
  assume a: "mset xs = mset ys"
  then have "sort xs = sort ys" by (metis sorted_list_of_multiset_mset)
  moreover have "(xs = []) = (ys = [])" using a by (metis mset_zero_iff)
  ultimately show ?thesis by (simp add: stats_of_def)
qed

lemma bound_exists: "\<exists>N::nat. \<forall>w \<in> set ws. length w \<le> N"
  by (rule exI [of _ "Max (set (map length ws) \<union> {0})"]) simp

lemma category_multisets_determine_result:
  assumes "\<forall>i. mset (cat_samples ws i) = mset (cat_samples ws' i)"
  shows "apply_criteria_dists ws c t tc = apply_criteria_dists ws' c t tc"
proof -
  obtain N where N: "\<forall>w \<in> set (ws @ ws'). length w \<le> N"
    using bound_exists by blast
  have n1: "\<forall>w \<in> set ws. length w \<le> N" and n2: "\<forall>w \<in> set ws'. length w \<le> N"
    using N by auto
  have "mset (concat (map (non_control c) ws)) = mset (concat (map (non_control c) ws'))"
    by (simp add: mset_non_control_pool [OF n1] mset_non_control_pool [OF n2] assms)
  moreover have "mset (concat (map (control c) ws)) = mset (concat (map (control c) ws'))"
    by (simp add: mset_control_pool [OF n1] mset_control_pool [OF n2] assms)
  ultimately show ?thesis
    by (simp add: apply_criteria_dists_eq stats_of_mset)
qed

lemma cat_samples_perm: "mset ws = mset ws' \<Longrightarrow> mset (cat_samples ws i) = mset (cat_samples ws' i)"
proof -
  assume a: "mset ws = mset ws'"
  have "mset (cat_samples ws i) = (\<Sum>xs \<in># mset ws. mset (if i < length xs then xs ! i else []))"
    by (simp add: cat_samples_def mset_concat comp_def flip: sum_mset_sum_list)
  also have "\<dots> = (\<Sum>xs \<in># mset ws'. mset (if i < length xs then xs ! i else []))"
    by (simp add: a)
  also have "\<dots> = mset (cat_samples ws' i)"
    by (simp add: cat_samples_def mset_concat comp_def flip: sum_mset_sum_list)
  finally show ?thesis .
qed





lemma gen_walk_length:
  "gen_walk draw ps g = Inr (dists, g') \<Longrightarrow> length dists = length ps"
  by (induction ps arbitrary: g dists g') (auto split: sum.splits prod.splits)

lemma gen_walks_length:
  "gen_walks draw k ps g = Inr (ws, g') \<Longrightarrow> \<forall>w \<in> set ws. length w = length ps"
  by (induction k arbitrary: g ws g') (auto split: sum.splits prod.splits dest: gen_walk_length)

lemma init_Inr:
  assumes "init ms sds ns w seed = Inr mc"
  shows "means mc = ms" "std_devs mc = sds" "samples mc = ns" "walks mc = w"
    "categories mc = length ms" "rng mc = seed" "length sds = length ms" "length ns = length ms"
  using assms by (auto simp: init_def split: if_splits)

lemma gen_dists_categories:
  assumes "init ms sds ns w seed = Inr mc" "gen_dists draw mc = Inr (ws, mc')"
  shows "\<forall>wk \<in> set ws. length wk = categories mc"
proof -
  obtain g where "gen_walks draw (nat w) (zip ms (zip sds ns)) seed = Inr (ws, g)"
    using assms by (auto simp: gen_dists_def init_Inr [OF assms(1)] split: sum.splits prod.splits)
  then have "\<forall>wk \<in> set ws. length wk = length (zip ms (zip sds ns))"
    by (rule gen_walks_length)
  then show ?thesis by (simp add: init_Inr [OF assms(1)])
qed



lemma fst_stats_of: "fst (stats_of xs) = sort xs"
  by (simp add: stats_of_def)

lemma pool_dists_nth:
  "pool_dists ws c ! FAIL = concat (map (non_control c) ws)"
  "pool_dists ws c ! PASS = concat (map (control c) ws)"
  by (simp_all add: pool_dists_eq FAIL_def PASS_def)

lemma no_category_matches:
  assumes "c < 0 \<or> int (length w) \<le> c"
  shows "control c w = []" "non_control c w = concat w"
proof -
  have a: "filter (\<lambda>i. int i = c) [0..<length w] = []"
    using assms by (auto simp: filter_empty_conv)
  have b: "filter (\<lambda>i. int i \<noteq> c) [0..<length w] = [0..<length w]"
    using assms by (auto simp: filter_id_conv)
  show "control c w = []" by (simp add: control_nth a)
  show "non_control c w = concat w" by (simp add: non_control_nth b map_nth)
qed

lemma no_category_matches_pool:
  assumes "\<forall>w \<in> set ws. c < 0 \<or> int (length w) \<le> c"
  shows "pool_dists ws c = [concat (concat ws), []]"
proof -
  have "concat (map (control c) ws) = [] \<and> concat (map (non_control c) ws) = concat (concat ws)"
    using assms by (induction ws) (auto simp: no_category_matches)
  then show ?thesis by (simp add: pool_dists_eq)
qed

lemma gen_dists_no_walks:
  assumes "walks mc \<le> 0"
  shows "gen_dists draw mc = Inr ([], mc)"
  using assms by (simp add: gen_dists_def)

section \<open>Construction\<close>

text \<open>
  C4. The constructor raises \<open>ValueError\<close> exactly when the three sequences do not all
  have the same length, whatever the walk count is; a raise carries no instance, and
  otherwise the instance stores the arguments as given, for every walk count.
\<close>

theorem init_error_iff_lengths_differ:
  "(init ms sds ns w seed = Inl ValueError) =
     (\<not> (length ms = length sds \<and> length sds = length ns \<and> length ms = length ns))
   \<and> (\<forall>mc. init ms sds ns w seed \<noteq> Inr mc) =
     (\<not> (length ms = length sds \<and> length sds = length ns \<and> length ms = length ns))
   \<and> init ms sds ns w seed =
     (if length ms = length sds \<and> length sds = length ns \<and> length ms = length ns
      then Inr \<lparr>means = ms, std_devs = sds, samples = ns, walks = w,
                categories = length ms, rng = seed\<rparr>
      else Inl ValueError)"
  by (auto simp: init_def)

theorem init_error_iff_lengths_differ_witness:
  "init [10, 12, 10] [1, 2] [20, 30] 10 (0::nat) = Inl ValueError
   \<and> init [10, 12] [1, 2] [20, 30, 5] 10 (0::nat) = Inl ValueError
   \<and> init [10] [1, 2] [20, 30, 5] 10 (0::nat) = Inl ValueError
   \<and> init [10, 12] [1, 2] [20, 30] 0 (0::nat) =
       Inr \<lparr>means = [10, 12], std_devs = [1, 2], samples = [20, 30], walks = 0,
            categories = 2, rng = 0\<rparr>"
  using init_error_iff_lengths_differ [of "[10, 12, 10]" "[1, 2]" "[20, 30]" 10 "0::nat"]
    init_error_iff_lengths_differ [of "[10, 12]" "[1, 2]" "[20, 30, 5]" 10 "0::nat"]
    init_error_iff_lengths_differ [of "[10]" "[1, 2]" "[20, 30, 5]" 10 "0::nat"]
    init_error_iff_lengths_differ [of "[10, 12]" "[1, 2]" "[20, 30]" 0 "0::nat"]
  by simp

section \<open>Concrete scenarios\<close>

text \<open>
  C1. One walk with the arrays [12,11,10,9,8], [6,5,4,3,2] and [6,5,4,3,2], control index
  2 and threshold 4: the false negatives are 2 and 3 (minimum 2, mean 2.5, median 2.5,
  maximum 3, standard deviation 0.5) and the false positives are 5 and 6 (minimum 5,
  mean 5.5, median 5.5, maximum 6, standard deviation 0.5).
\<close>

theorem scenario_A_threshold_4:
  "apply_criteria_dists [[[12, 11, 10, 9, 8], [6, 5, 4, 3, 2], [6, 5, 4, 3, 2]]] 2 4
     default_test_cri =
   Inr (([2, 3], Num 2, Num (5 / 2), Num (5 / 2), Num 3, Num (1 / 2)),
        ([5, 6], Num 5, Num (11 / 2), Num (11 / 2), Num 6, Num (1 / 2)))"
  by (simp add: apply_criteria_dists_eq non_control_def control_def enumerate_eq_zip upt_rec
      stats_of_def np_mean_def np_median_def np_std_def)

text \<open>
  C2. The default control index is -1. On the arrays of scenario A, which has three
  categories, the default puts every sample into the non-control pool and leaves the
  control pool empty, whereas the index 2 of the last category separates the third
  array: the two calls return different results.
\<close>

theorem default_control_idx_is_not_last_category:
  "pool_dists [[[12, 11, 10, 9, 8], [6, 5, 4, 3, 2], [6, 5, 4, 3, 2]]] default_control_idx =
     [[12, 11, 10, 9, 8, 6, 5, 4, 3, 2, 6, 5, 4, 3, 2], []]
   \<and> pool_dists [[[12, 11, 10, 9, 8], [6, 5, 4, 3, 2], [6, 5, 4, 3, 2]]] 2 =
     [[12, 11, 10, 9, 8, 6, 5, 4, 3, 2], [6, 5, 4, 3, 2]]
   \<and> apply_criteria_dists [[[12, 11, 10, 9, 8], [6, 5, 4, 3, 2], [6, 5, 4, 3, 2]]]
       default_control_idx 4 default_test_cri =
     Inr (([2, 2, 3, 3], Num 2, Num (5 / 2), Num (5 / 2), Num 3, Num (1 / 2)),
          ([], NaN, NaN, NaN, NaN, NaN))
   \<and> apply_criteria_dists [[[12, 11, 10, 9, 8], [6, 5, 4, 3, 2], [6, 5, 4, 3, 2]]]
       default_control_idx 4 default_test_cri \<noteq>
     apply_criteria_dists [[[12, 11, 10, 9, 8], [6, 5, 4, 3, 2], [6, 5, 4, 3, 2]]]
       2 4 default_test_cri"
  by (simp add: apply_criteria_dists_eq pool_dists_eq non_control_def control_def
      enumerate_eq_zip upt_rec stats_of_def np_mean_def np_median_def np_std_def
      default_control_idx_def)

text \<open>
  C3, as stated: with the arrays of scenario A, control index 2 and threshold 5 both
  pools would be empty. They are not: 2, 3 and 4 of the second array are below 5, and 6
  of the control array is above 5.
\<close>

theorem scenario_B_same_arrays_counterexample:
  "apply_criteria_dists [[[12, 11, 10, 9, 8], [6, 5, 4, 3, 2], [6, 5, 4, 3, 2]]] 2 5
     default_test_cri \<noteq>
   Inr (([], NaN, NaN, NaN, NaN, NaN), ([], NaN, NaN, NaN, NaN, NaN))"
  by (simp add: apply_criteria_dists_eq non_control_def control_def enumerate_eq_zip upt_rec
      stats_of_def)

text \<open>
  C3, amended: with the arrays [12,11,10,9,8], [10,9,8,7,6] and [5,4,3,2,1] of the
  repository's test, control index 2 and threshold 5, both pools are empty, each with
  the empty sequence and five nan. With the arrays of scenario A the false negatives are
  2, 3, 4 and the only false positive is 6.
\<close>

theorem scenario_B_threshold_5:
  "apply_criteria_dists [[[12, 11, 10, 9, 8], [10, 9, 8, 7, 6], [5, 4, 3, 2, 1]]] 2 5
     default_test_cri =
   Inr (([], NaN, NaN, NaN, NaN, NaN), ([], NaN, NaN, NaN, NaN, NaN))
   \<and> apply_criteria_dists [[[12, 11, 10, 9, 8], [6, 5, 4, 3, 2], [6, 5, 4, 3, 2]]] 2 5
     default_test_cri =
   Inr (([2, 3, 4], Num 2, Num 3, Num 3, Num 4, Num (sqrt (2 / 3))),
        ([6], Num 6, Num 6, Num 6, Num 6, Num 0))"
  by (simp add: apply_criteria_dists_eq non_control_def control_def enumerate_eq_zip upt_rec
      stats_of_def np_mean_def np_median_def np_std_def)

section \<open>Generation\<close>



section \<open>Scoring\<close>

text \<open>
  C6. \<open>apply_criteria\<close> never raises on a sequence of walks. Whenever no sample of the
  non-control pool is below the threshold, the false-negative component is the empty
  sequence with nan for all five statistics, and likewise for the false-positive
  component when no sample of the control pool is above the threshold. With no walk at
  all, and so for a walk count of 0, both components are empty with five nan.
\<close>

theorem empty_pool_gives_nan:
  "(\<exists>false_neg false_pos.
      apply_criteria_dists ws control_idx criteria test_cri = Inr (false_neg, false_pos)
      \<and> (filter (\<lambda>x. x < criteria) (pool_dists ws control_idx ! FAIL) = []
            \<longrightarrow> false_neg = ([], NaN, NaN, NaN, NaN, NaN))
      \<and> (filter (\<lambda>x. x > criteria) (pool_dists ws control_idx ! PASS) = []
            \<longrightarrow> false_pos = ([], NaN, NaN, NaN, NaN, NaN)))
   \<and> apply_criteria_dists [] control_idx criteria test_cri =
       Inr (([], NaN, NaN, NaN, NaN, NaN), ([], NaN, NaN, NaN, NaN, NaN))
   \<and> (walks mc = 0 \<longrightarrow>
        gen_dists draw mc = Inr ([], mc)
        \<and> apply_criteria draw mc control_idx criteria test_cri =
            Inr ((([], NaN, NaN, NaN, NaN, NaN), ([], NaN, NaN, NaN, NaN, NaN)), mc))"
proof -
  have a: "apply_criteria_dists [] control_idx criteria test_cri =
       Inr (([], NaN, NaN, NaN, NaN, NaN), ([], NaN, NaN, NaN, NaN, NaN))"
    by (simp add: apply_criteria_dists_eq stats_of_def)
  have b: "gen_dists draw mc = Inr ([], mc)
        \<and> apply_criteria draw mc control_idx criteria test_cri =
            Inr ((([], NaN, NaN, NaN, NaN, NaN), ([], NaN, NaN, NaN, NaN, NaN)), mc)"
    if "walks mc = 0"
    using that a by (simp add: apply_criteria_def gen_dists_no_walks)
  have c: "\<exists>false_neg false_pos.
      apply_criteria_dists ws control_idx criteria test_cri = Inr (false_neg, false_pos)
      \<and> (filter (\<lambda>x. x < criteria) (pool_dists ws control_idx ! FAIL) = []
            \<longrightarrow> false_neg = ([], NaN, NaN, NaN, NaN, NaN))
      \<and> (filter (\<lambda>x. x > criteria) (pool_dists ws control_idx ! PASS) = []
            \<longrightarrow> false_pos = ([], NaN, NaN, NaN, NaN, NaN))"
    by (simp add: apply_criteria_dists_eq pool_dists_nth stats_of_def)
  show ?thesis using a b c by blast
qed

theorem empty_pool_gives_nan_witness:
  "apply_criteria_dists [[[12, 11, 10, 9, 8], [10, 9, 8, 7, 6], [5, 4, 3, 2, 1]]] 2 5
     default_test_cri =
     Inr (([], NaN, NaN, NaN, NaN, NaN), ([], NaN, NaN, NaN, NaN, NaN))
   \<and> apply_criteria demo_draw
       \<lparr>means = [10, 12], std_devs = [1, 2], samples = [20, 30], walks = 0,
        categories = 2, rng = 0\<rparr> default_control_idx default_criteria default_test_cri =
     Inr ((([], NaN, NaN, NaN, NaN, NaN), ([], NaN, NaN, NaN, NaN, NaN)),
          \<lparr>means = [10, 12], std_devs = [1, 2], samples = [20, 30], walks = 0,
           categories = 2, rng = 0\<rparr>)"
proof -
  have p: "pool_dists [[[12, 11, 10, 9, 8], [10, 9, 8, 7, 6], [5, 4, 3, 2, 1]]] 2 =
     [[12, 11, 10, 9, 8, 10, 9, 8, 7, 6], [5, 4, 3, 2, 1]]"
    by (simp add: pool_dists_eq non_control_def control_def enumerate_eq_zip upt_rec)
  show ?thesis
    using empty_pool_gives_nan
      [of "[[[12, 11, 10, 9, 8], [10, 9, 8, 7, 6], [5, 4, 3, 2, 1]]]" 2 5 default_test_cri
        "\<lparr>means = [10, 12], std_devs = [1, 2], samples = [20, 30], walks = 0,
          categories = 2, rng = 0\<rparr>" demo_draw]
      empty_pool_gives_nan
      [of "[]" default_control_idx default_criteria default_test_cri
        "\<lparr>means = [10, 12], std_devs = [1, 2], samples = [20, 30], walks = 0,
          categories = 2, rng = 0\<rparr>" demo_draw]
    by (auto simp: p FAIL_def PASS_def)
qed

text \<open>
  C7. The result does not depend on \<open>test_cri\<close>: two calls that differ only in that
  argument return the same value, on a given sequence of walks and on the simulator with
  its generator. The values selected are always those of the non-control pool strictly
  below the threshold and those of the control pool strictly above it, in ascending
  order.
\<close>

theorem test_cri_is_ignored:
  "apply_criteria_dists ws control_idx criteria test_cri =
     apply_criteria_dists ws control_idx criteria test_cri'
   \<and> apply_criteria draw mc control_idx criteria test_cri =
     apply_criteria draw mc control_idx criteria test_cri'
   \<and> (\<exists>false_neg false_pos.
        apply_criteria_dists ws control_idx criteria test_cri = Inr (false_neg, false_pos)
        \<and> fst false_neg = sort (filter (\<lambda>x. x < criteria) (pool_dists ws control_idx ! FAIL))
        \<and> fst false_pos = sort (filter (\<lambda>x. x > criteria) (pool_dists ws control_idx ! PASS)))"
proof -
  have "apply_criteria_dists ws control_idx criteria tc =
     apply_criteria_dists ws control_idx criteria tc'" for ws tc tc'
    by (simp add: apply_criteria_dists_eq)
  then show ?thesis
    by (simp add: apply_criteria_def apply_criteria_dists_eq pool_dists_nth fst_stats_of
        cong: sum.case_cong prod.case_cong)
qed

text \<open>
  C8. The result depends only on the multiset of samples of each category: two sequences
  of walks with the same samples per category, in any order and in any distribution
  over the walks, give the same pair of results, sorted values included. In particular
  a permutation of the walks does not change the result.
\<close>

theorem apply_criteria_order_independent:
  "(mset ws = mset ws' \<longrightarrow>
      apply_criteria_dists ws control_idx criteria test_cri =
      apply_criteria_dists ws' control_idx criteria test_cri)
   \<and> ((\<forall>i. mset (cat_samples ws i) = mset (cat_samples ws' i)) \<longrightarrow>
      apply_criteria_dists ws control_idx criteria test_cri =
      apply_criteria_dists ws' control_idx criteria test_cri)"
  using category_multisets_determine_result [of ws ws' control_idx criteria test_cri]
    cat_samples_perm [of ws ws']
  by blast

theorem apply_criteria_order_independent_witness:
  "apply_criteria_dists [[[1, 2], [3]], [[4], [5, 6]]] 1 3 default_test_cri =
     apply_criteria_dists [[[4], [5, 6]], [[1, 2], [3]]] 1 3 default_test_cri
   \<and> apply_criteria_dists [[[1, 2], [3]], [[4], [5, 6]]] 1 3 default_test_cri =
     apply_criteria_dists [[[4, 1], [6, 3]], [[2], [5]]] 1 3 default_test_cri"
proof -
  have a: "mset [[[1, 2], [3]], [[4], [5, 6::real]]] = mset [[[4], [5, 6]], [[1, 2], [3]]]"
    by (simp add: add_mset_commute)
  have b: "mset (cat_samples [[[1, 2], [3]], [[4], [5, 6]]] i) =
           mset (cat_samples [[[4, 1], [6, 3]], [[2], [5]]] i)" for i
  proof -
    consider "i = 0" | "i = 1" | "2 \<le> i" by linarith
    then show ?thesis
      by cases (simp_all add: cat_samples_def add_mset_commute)
  qed
  show ?thesis
    using a b
      apply_criteria_order_independent
        [of "[[[1, 2], [3]], [[4], [5, 6]]]" "[[[4], [5, 6]], [[1, 2], [3]]]" 1 3
          default_test_cri]
      apply_criteria_order_independent
        [of "[[[1, 2], [3]], [[4], [5, 6]]]" "[[[4, 1], [6, 3]], [[2], [5]]]" 1 3
          default_test_cri]
    by blast
qed


section \<open>Absence of errors and the control index\<close>



text \<open>
  C10. When \<open>control_idx\<close> is no position of a category, that is negative (as the default
  -1 is) or at least the number of categories, every sample of every walk the simulator
  yields is in the non-control pool and the control pool is empty, so the
  false-positive component is the empty sequence with five nan.
\<close>

theorem control_idx_out_of_range:
  assumes "init ms sds ns w seed = Inr mc"
    and "control_idx < 0 \<or> int (categories mc) \<le> control_idx"
    and "gen_dists draw mc = Inr (ws, mc')"
  shows "pool_dists ws control_idx = [concat (concat ws), []]
         \<and> (\<exists>false_neg. apply_criteria draw mc control_idx criteria test_cri =
               Inr ((false_neg, ([], NaN, NaN, NaN, NaN, NaN)), mc'))
         \<and> pool_dists ws default_control_idx = [concat (concat ws), []]
         \<and> (\<exists>false_neg. apply_criteria draw mc default_control_idx criteria test_cri =
               Inr ((false_neg, ([], NaN, NaN, NaN, NaN, NaN)), mc'))"
proof -
  have len: "\<forall>wk \<in> set ws. length wk = categories mc"
    using gen_dists_categories [OF assms(1) assms(3)] .
  have gen: "pool_dists ws c = [concat (concat ws), []]
         \<and> (\<exists>false_neg. apply_criteria draw mc c criteria test_cri =
               Inr ((false_neg, ([], NaN, NaN, NaN, NaN, NaN)), mc'))"
    if c: "c < 0 \<or> int (categories mc) \<le> c" for c
  proof -
    have "\<forall>wk \<in> set ws. c < 0 \<or> int (length wk) \<le> c" using len c by simp
    then have p: "pool_dists ws c = [concat (concat ws), []]"
      by (rule no_category_matches_pool)
    then have "concat (map (control c) ws) = []"
      using pool_dists_nth(2) [of ws c] by (simp add: PASS_def)
    then have "apply_criteria draw mc c criteria test_cri =
        Inr ((stats_of (filter (\<lambda>x. x < criteria) (concat (map (non_control c) ws))),
              ([], NaN, NaN, NaN, NaN, NaN)), mc')"
      by (simp add: apply_criteria_def assms(3) apply_criteria_dists_eq stats_of_def)
    then show ?thesis using p by blast
  qed
  show ?thesis
    using gen [OF assms(2)] gen [of default_control_idx] by (simp add: default_control_idx_def)
qed

theorem control_idx_out_of_range_witness:
  "pool_dists [[[10, 11], [14]]] (- 1) = [[10, 11, 14], []]
   \<and> (\<exists>false_neg. apply_criteria demo_draw \<lparr>means = [10, 12], std_devs = [1, 1],
         samples = [2, 1], walks = 1, categories = 2, rng = (0::nat)\<rparr> (- 1) 11
         default_test_cri =
         Inr ((false_neg, ([], NaN, NaN, NaN, NaN, NaN)),
              \<lparr>means = [10, 12], std_devs = [1, 1], samples = [2, 1], walks = 1,
               categories = 2, rng = 3\<rparr>))"
proof -
  have i: "init [10, 12] [1, 1] [2, 1] 1 (0::nat) =
     Inr \<lparr>means = [10, 12], std_devs = [1, 1], samples = [2, 1], walks = 1,
          categories = 2, rng = 0\<rparr>"
    by (simp add: init_def)
  have g: "gen_dists demo_draw \<lparr>means = [10, 12], std_devs = [1, 1], samples = [2, 1],
      walks = 1, categories = 2, rng = (0::nat)\<rparr> =
    Inr ([[[10, 11], [14]]], \<lparr>means = [10, 12], std_devs = [1, 1], samples = [2, 1],
      walks = 1, categories = 2, rng = 3\<rparr>)"
    by (simp add: gen_dists_def normal_def demo_draw_def numeral_2_eq_2 numeral_3_eq_3)
  have c: "(- 1 :: int) < 0 \<or> int (categories \<lparr>means = [10, 12], std_devs = [1, 1],
      samples = [2, 1], walks = 1, categories = 2, rng = (0::nat)\<rparr>) \<le> - 1"
    by simp
  show ?thesis
    using control_idx_out_of_range [OF i c g, of 11 default_test_cri] by simp
qed

end
